theory Spec2Isabelle
  imports Complex_Main
begin

section \<open>Front end of the spectrum calculation (radis/lbl/calc.py)\<close>

text \<open>
  The front end checks its inputs, builds a SpectrumFactory, loads a line databank and
  hands over to one of the factory's synthesis routines. The factory itself is another
  module: its calls are recorded as events, in the order in which the front end makes
  them, and the spectrum a call returns is identified by the synthesis call that makes it.
  Every \<^verbatim>\<open>raise\<close> and every failing \<^verbatim>\<open>assert\<close> of the source is a value of
  type \<open>error\<close>, with the message the source gives it.
\<close>

subsection \<open>Errors and argument values\<close>

datatype error =
    ValueError string
  | NotImplementedError string
  | AssertionError
  | DeprecationWarning string
  | TypeError
  | IndexError
  | KeyError string

text \<open>The values a keyword argument of \<^verbatim>\<open>**kwargs\<close> can hold.\<close>

datatype pyval = PNone | PBool bool | PInt int | PFloat real | PStr string

text \<open>Python's truth value of an object, as \<^verbatim>\<open>assert x\<close> and \<^verbatim>\<open>if x\<close> take it.\<close>

fun truthy :: "pyval \<Rightarrow> bool" where
  "truthy PNone = False"
| "truthy (PBool b) = b"
| "truthy (PInt n) = (n \<noteq> 0)"
| "truthy (PFloat x) = (x \<noteq> 0)"
| "truthy (PStr s) = (s \<noteq> [])"

text \<open>\<^verbatim>\<open>x >= 2\<close>: booleans compare as 0 and 1, \<^verbatim>\<open>None\<close> and strings raise TypeError.\<close>

fun ge2 :: "pyval \<Rightarrow> error + bool" where
  "ge2 PNone = Inl TypeError"
| "ge2 (PBool b) = Inr False"
| "ge2 (PInt n) = Inr (2 \<le> n)"
| "ge2 (PFloat x) = Inr (2 \<le> x)"
| "ge2 (PStr s) = Inl TypeError"

text \<open>The \<^verbatim>\<open>databank\<close> argument of \<^verbatim>\<open>_calc_spectrum\<close>: \<^verbatim>\<open>None\<close>, a string, or a tuple of strings.\<close>

datatype databank_arg = DbNone | DbName string | DbTuple "string list"

datatype wstep_arg = WstepAuto | Wstep real

text \<open>
  An \<^verbatim>\<open>overpopulation\<close> argument: a dictionary from level names to factors, or from
  molecule names to such dictionaries. Python decides which of the two it is by looking
  at the keys, so both are values of one type.
\<close>

datatype overpop = OvNum real | OvDict "(string \<times> overpop) list"

text \<open>
  The arguments that \<^verbatim>\<open>calc_spectrum\<close> passes to \<^verbatim>\<open>_calc_spectrum\<close> as they are,
  the same for every molecule.
\<close>

record common_args =
  wavenum_min :: "real option"
  wavenum_max :: "real option"
  wavelength_min :: "real option"
  wavelength_max :: "real option"
  Tgas :: "real option"
  Tvib :: "real option"
  Trot :: "real option"
  pressure :: real
  path_length :: real
  medium :: string
  wstep :: wstep_arg
  broadening_max_width :: real
  cutoff :: real
  parsum_mode :: string
  optimization :: "string option"
  name :: "string option"
  use_cached :: bool
  verbose :: bool
  mode :: string
  export_lines :: bool
  kwargs :: "string \<rightharpoonup> pyval"

text \<open>
  What the front end takes from other modules: \<^verbatim>\<open>os.path.exists\<close>, the unit
  conversions \<^verbatim>\<open>nm2cm\<close> (radis.phys.convert) and \<^verbatim>\<open>air2vacuum\<close>
  (radis.phys.air), and \<^verbatim>\<open>all_in\<close> (radis.misc.basics). The order in which a
  \<^verbatim>\<open>for\<close> loop goes through a Python \<^verbatim>\<open>set\<close> of strings is not fixed by the
  language (it changes with the hash seed of the interpreter): \<open>set_order\<close> gives it,
  for the set of the given elements.
\<close>

record env =
  exists :: "string \<Rightarrow> bool"
  nm2cm :: "real \<Rightarrow> real"
  air2vacuum :: "real \<Rightarrow> real"
  all_in :: "string list \<Rightarrow> string list \<Rightarrow> bool"
  set_order :: "string list \<Rightarrow> string list"

subsection \<open>Calls to the factory\<close>

record fetch_conditions =
  fc_source :: string
  fc_exomol_database :: "string option"
  fc_parfuncfmt :: string
  fc_levelsfmt :: "string option"
  fc_db_use_cached :: bool
  fc_lvl_use_cached :: "bool option"
  fc_load_energies :: bool
  fc_parse_local_global_quanta :: bool

record load_conditions =
  lc_path :: string
  lc_drop_columns :: string
  lc_parfuncfmt :: string
  lc_levelsfmt :: "string option"
  lc_db_use_cached :: bool
  lc_format :: string
  lc_lvl_use_cached :: "bool option"
  lc_load_energies :: bool

text \<open>
  The synthesis routines of the factory, with the arguments the front end gives them:
  \<^verbatim>\<open>eq_spectrum(Tgas, mole_fraction, path_length, name)\<close>,
  \<^verbatim>\<open>eq_spectrum_gpu(Tgas, mole_fraction, pressure, path_length, name)\<close> and
  \<^verbatim>\<open>non_eq_spectrum(Tvib, Trot, Ttrans, overpopulation, mole_fraction, path_length, name)\<close>.
\<close>

datatype synth =
    EqSpectrum "real option" real real "string option"
  | EqSpectrumGpu "real option" real real real "string option"
  | NonEqSpectrum "real option" "real option" "real option" "overpop option" real real "string option"

text \<open>
  \<open>SpectrumFactory wmin wmax molecule isotope kwargs c\<close> is the constructor call: the
  working range, the molecule and isotope, the supplementary keyword arguments, and \<open>c\<close>
  for the arguments read from it unchanged (medium, pressure, wstep, broadening_max_width,
  cutoff, parsum_mode, verbose, optimization, export_lines). \<open>MergeSlabs\<close> and
  \<open>Store\<close> are the two calls \<^verbatim>\<open>calc_spectrum\<close> makes on the spectra it got.
\<close>

datatype event =
    SpectrumFactory real real "string option" string "string \<rightharpoonup> pyval" "common_args"
  | FetchDatabank fetch_conditions
  | LoadDatabank load_conditions
  | LoadDatabankNamed string bool string
  | SetExportRovibFraction
  | Synth synth
  | MergeSlabs "synth list"
  | Store string

subsection \<open>Input checks of \<^verbatim>\<open>_calc_spectrum\<close>\<close>

definition endswith :: "string \<Rightarrow> string \<Rightarrow> bool" where
  "endswith s suf = (length suf \<le> length s \<and> drop (length s - length suf) s = suf)"

text \<open>
  The wavelength and wavenumber checks and the working wavenumber range: the first
  statements of \<^verbatim>\<open>_calc_spectrum\<close>, down to the two \<^verbatim>\<open>assert\<close>s of the
  wavenumber branch.
\<close>

definition wavenumber_range :: "env \<Rightarrow> common_args \<Rightarrow> error + (real \<times> real)" where
  "wavenumber_range en c =
     (if (wavelength_min c \<noteq> None \<or> wavelength_max c \<noteq> None)
          \<and> (wavenum_min c \<noteq> None \<or> wavenum_max c \<noteq> None)
      then Inl (ValueError ''Wavenumber and Wavelength both given... it's time to choose!'')
      else if medium c \<notin> set [''air'', ''vacuum'']
      then Inl (NotImplementedError (''Unknown propagating medium: '' @ medium c))
      else if wavenum_min c = None \<and> wavenum_max c = None
      then (case wavelength_max c of
              None \<Rightarrow> Inl AssertionError
            | Some lmax \<Rightarrow>
               (case wavelength_min c of
                  None \<Rightarrow> Inl AssertionError
                | Some lmin \<Rightarrow>
                    if medium c = ''vacuum''
                    then Inr (nm2cm en lmax, nm2cm en lmin)
                    else Inr (nm2cm en (air2vacuum en lmax), nm2cm en (air2vacuum en lmin))))
      else (case wavenum_min c of
              None \<Rightarrow> Inl AssertionError
            | Some wmin \<Rightarrow>
               (case wavenum_max c of
                  None \<Rightarrow> Inl AssertionError
                | Some wmax \<Rightarrow> Inr (wmin, wmax))))"

text \<open>
  The checks on the temperatures, the databank and the supplementary keyword arguments.
  The result is \<^verbatim>\<open>kwargs\<close> with the default of \<^verbatim>\<open>save_memory\<close> filled in.
\<close>

definition check_conditions :: "common_args \<Rightarrow> databank_arg \<Rightarrow> error + (string \<rightharpoonup> pyval)" where
  "check_conditions c databank =
     (if Tgas c = None \<and> Trot c = None
      then Inl (ValueError ''Choose either Tgas (equilibrium) or Tvib / Trot (non equilibrium)'')
      else if (Tvib c = None \<and> Trot c \<noteq> None) \<or> (Tvib c \<noteq> None \<and> Trot c = None)
      then Inl (ValueError ''Choose both Tvib and Trot'')
      else if databank = DbNone
      then Inl (ValueError ''Give a databank name'')
      else let kw = (if kwargs c ''save_memory'' = None
                     then (kwargs c)(''save_memory'' \<mapsto> PBool True) else kwargs c)
           in if kw ''chunksize'' \<noteq> None
              then Inl (DeprecationWarning ''use optimization= instead of chunksize='')
              else Inr kw)"

text \<open>
  \<^verbatim>\<open>_is_at_equilibrium\<close>: each \<^verbatim>\<open>assert\<close> that fails makes the result False.
  \<open>kw\<close> is \<^verbatim>\<open>kwargs\<close> as the checks above left it.
\<close>

definition p_is_at_equilibrium ::
  "common_args \<Rightarrow> overpop option \<Rightarrow> (string \<rightharpoonup> pyval) \<Rightarrow> bool" where
  "p_is_at_equilibrium c overpopulation kw =
     (if \<not> (Tvib c = None \<or> Tvib c = Tgas c) then False
      else if \<not> (Trot c = None \<or> Trot c = Tgas c) then False
      else if \<not> (overpopulation = None) then False
      else (case kw ''self_absorption'' of
              Some v \<Rightarrow> if \<not> truthy v then False else True
            | None \<Rightarrow> True))"

text \<open>Which columns to keep: \<^verbatim>\<open>kwargs["save_memory"] >= 2 and _equilibrium\<close>.\<close>

definition drop_columns :: "(string \<rightharpoonup> pyval) \<Rightarrow> bool \<Rightarrow> error + string" where
  "drop_columns kw equilibrium =
     (case kw ''save_memory'' of
        None \<Rightarrow> Inl (KeyError ''save_memory'')
      | Some v \<Rightarrow>
         (case ge2 v of
            Inl e \<Rightarrow> Inl e
          | Inr b \<Rightarrow> Inr (if b \<and> equilibrium then ''all'' else ''auto'')))"

subsection \<open>Loading the databank\<close>

text \<open>
  The three ways of \<^verbatim>\<open>_calc_spectrum\<close> to fill the factory with lines: fetching a
  known databank, loading a file whose format follows from its extension, or loading a
  databank registered in the configuration file. A tuple is indexed as the source does
  it, so an empty tuple and the missing second component of \<^verbatim>\<open>("exomol",)\<close> raise
  IndexError; \<^verbatim>\<open>os.path.exists\<close> of a tuple raises TypeError.
\<close>

definition fetch_databank_conditions ::
  "common_args \<Rightarrow> bool \<Rightarrow> string \<Rightarrow> string option \<Rightarrow> string \<Rightarrow> fetch_conditions" where
  "fetch_databank_conditions c equilibrium src exo pf =
     \<lparr> fc_source = src, fc_exomol_database = exo, fc_parfuncfmt = pf,
       fc_levelsfmt = (if \<not> equilibrium then Some ''radis'' else None),
       fc_db_use_cached = use_cached c,
       fc_lvl_use_cached = (if \<not> equilibrium then Some (use_cached c) else None),
       fc_load_energies = (\<not> equilibrium),
       fc_parse_local_global_quanta = ((\<not> equilibrium) \<or> export_lines c) \<rparr>"

definition load_file_conditions ::
  "common_args \<Rightarrow> string \<Rightarrow> bool \<Rightarrow> string \<Rightarrow> error + load_conditions" where
  "load_file_conditions c d equilibrium dc =
     (let base = \<lparr> lc_path = d, lc_drop_columns = dc, lc_parfuncfmt = ''hapi'',
                   lc_levelsfmt = None, lc_db_use_cached = use_cached c,
                   lc_format = [], lc_lvl_use_cached = None,
                   lc_load_energies = (\<not> equilibrium) \<rparr>
      in if endswith d ''.par''
         then Inr (if \<not> equilibrium
                   then base\<lparr> lc_format := ''hitran'', lc_levelsfmt := Some ''radis'',
                              lc_lvl_use_cached := Some (use_cached c) \<rparr>
                   else base\<lparr> lc_format := ''hitran'' \<rparr>)
         else if endswith d ''.h5'' \<or> endswith d ''.hdf5''
         then Inr (if \<not> equilibrium
                   then base\<lparr> lc_format := ''hdf5-radisdb'', lc_levelsfmt := Some ''radis'' \<rparr>
                   else base\<lparr> lc_format := ''hdf5-radisdb'' \<rparr>)
         else Inl (ValueError (''Couldnt infer the format of the line database file: '' @ d @ ''. ''
                     @ ''Create a user-defined database in your ~/radis.json file ''
                     @ ''and define the format there. More information on ''
                     @ ''https://radis.readthedocs.io/en/latest/lbl/lbl.html#configuration-file'')))"

definition load_databank_step ::
  "env \<Rightarrow> common_args \<Rightarrow> databank_arg \<Rightarrow> bool \<Rightarrow> string \<Rightarrow> error + event" where
  "load_databank_step en c databank equilibrium dc =
     (case databank of
        DbNone \<Rightarrow> Inl TypeError
      | DbName d \<Rightarrow>
          if d \<in> set [''fetch'', ''hitran'', ''hitemp'', ''exomol'']
          then (if d \<in> set [''fetch'', ''hitran'']
                then Inr (FetchDatabank (fetch_databank_conditions c equilibrium ''hitran'' None ''hapi''))
                else if d \<in> set [''hitemp'']
                then Inr (FetchDatabank (fetch_databank_conditions c equilibrium ''hitemp'' None ''hapi''))
                else Inr (FetchDatabank (fetch_databank_conditions c equilibrium ''exomol'' None ''exomol'')))
          else if exists en d
          then map_sum id LoadDatabank (load_file_conditions c d equilibrium dc)
          else Inr (LoadDatabankNamed d (\<not> equilibrium) dc)
      | DbTuple t \<Rightarrow>
          (case t of
             [] \<Rightarrow> Inl IndexError
           | a # r \<Rightarrow>
               if a = ''exomol''
               then (case r of
                       [] \<Rightarrow> Inl IndexError
                     | b # r' \<Rightarrow>
                         Inr (FetchDatabank
                                (fetch_databank_conditions c equilibrium ''exomol'' (Some b) ''exomol'')))
               else Inl TypeError))"

subsection \<open>Choice of the synthesis routine\<close>

text \<open>
  The last statement of \<^verbatim>\<open>_calc_spectrum\<close>: \<^verbatim>\<open>eq_spectrum\<close> or
  \<^verbatim>\<open>eq_spectrum_gpu\<close> at equilibrium, \<^verbatim>\<open>non_eq_spectrum\<close> otherwise and on
  the CPU only.
\<close>

definition run_synthesis ::
  "common_args \<Rightarrow> bool \<Rightarrow> overpop option \<Rightarrow> real \<Rightarrow> error + synth" where
  "run_synthesis c equilibrium overpopulation mole_fraction =
     (if equilibrium
      then (if mode c = ''cpu''
            then Inr (EqSpectrum (Tgas c) mole_fraction (path_length c) (name c))
            else if mode c = ''gpu''
            then Inr (EqSpectrumGpu (Tgas c) mole_fraction (pressure c) (path_length c) (name c))
            else Inl (ValueError (mode c)))
      else (if mode c \<noteq> ''cpu''
            then Inl (NotImplementedError (mode c))
            else Inr (NonEqSpectrum (Tvib c) (Trot c) (Tgas c) overpopulation mole_fraction
                        (path_length c) (name c))))"

subsection \<open>\<^verbatim>\<open>_calc_spectrum\<close>\<close>

text \<open>
  Everything \<^verbatim>\<open>_calc_spectrum\<close> does before it chooses the synthesis routine. The
  result is the list of factory calls made so far and, when no check failed, whether the
  conditions are at equilibrium.
\<close>

definition prepare ::
  "env \<Rightarrow> common_args \<Rightarrow> overpop option \<Rightarrow> string option \<Rightarrow> string \<Rightarrow> databank_arg
     \<Rightarrow> event list \<times> (error + bool)" where
  "prepare en c overpopulation molecule isotope databank =
     (case wavenumber_range en c of
        Inl e \<Rightarrow> ([], Inl e)
      | Inr (wmin, wmax) \<Rightarrow>
         (case check_conditions c databank of
            Inl e \<Rightarrow> ([], Inl e)
          | Inr kw \<Rightarrow>
             (let equilibrium = p_is_at_equilibrium c overpopulation kw in
              case drop_columns kw equilibrium of
                Inl e \<Rightarrow> ([], Inl e)
              | Inr dc \<Rightarrow>
                 (let sf = SpectrumFactory wmin wmax molecule isotope kw c in
                  case load_databank_step en c databank equilibrium dc of
                    Inl e \<Rightarrow> ([sf], Inl e)
                  | Inr ld \<Rightarrow>
                      ([sf, ld] @ (if overpopulation \<noteq> None \<or> overpopulation \<noteq> Some (OvDict [])
                                   then [SetExportRovibFraction] else []),
                       Inr equilibrium)))))"

definition p_calc_spectrum ::
  "env \<Rightarrow> common_args \<Rightarrow> overpop option \<Rightarrow> string option \<Rightarrow> string \<Rightarrow> real \<Rightarrow> databank_arg
     \<Rightarrow> event list \<times> (error + synth)" where
  "p_calc_spectrum en c overpopulation molecule isotope mole_fraction databank =
     (case prepare en c overpopulation molecule isotope databank of
        (evs, Inl e) \<Rightarrow> (evs, Inl e)
      | (evs, Inr equilibrium) \<Rightarrow>
         (case run_synthesis c equilibrium overpopulation mole_fraction of
            Inl e \<Rightarrow> (evs, Inl e)
          | Inr s \<Rightarrow> (evs @ [Synth s], Inr s)))"

subsection \<open>\<^verbatim>\<open>calc_spectrum\<close>: one call for several molecules\<close>

text \<open>
  \<^verbatim>\<open>molecule\<close> is \<^verbatim>\<open>None\<close>, one molecule or a list of them; \<^verbatim>\<open>isotope\<close>,
  \<^verbatim>\<open>mole_fraction\<close> and \<^verbatim>\<open>databank\<close> are given once for all molecules or as a
  dictionary with the molecules as keys. A dictionary is the list of its items, in
  insertion order.
\<close>

datatype molecule_arg = MolNone | MolOne string | MolList "string list"

text \<open>
  The molecules known so far (\<^verbatim>\<open>molecule_reference_set\<close>): the list of the
  \<^verbatim>\<open>molecule\<close> argument, or \<^verbatim>\<open>set(new_argument.keys())\<close>, a set, given by its
  elements. A loop goes through a list in its order and through a set in the order
  \<open>set_order\<close>.
\<close>

datatype molecules = Listed "string list" | KeySet "string list"

fun members :: "molecules \<Rightarrow> string list" where
  "members (Listed ms) = ms"
| "members (KeySet ks) = ks"

fun iteration :: "env \<Rightarrow> molecules \<Rightarrow> string list" where
  "iteration en (Listed ms) = ms"
| "iteration en (KeySet ks) = set_order en ks"

datatype 'v dict_or = Value 'v | Dict "(string \<times> 'v) list"

definition first_occurrences :: "'a list \<Rightarrow> 'a list" where
  "first_occurrences xs = rev (remdups (rev xs))"

definition keys :: "(string \<times> 'v) list \<Rightarrow> string list" where
  "keys d = first_occurrences (map fst d)"

definition getitem :: "(string \<times> 'v) list \<Rightarrow> string \<Rightarrow> error + 'v" where
  "getitem d k = (case map_of d k of None \<Rightarrow> Inl (KeyError k) | Some v \<Rightarrow> Inr v)"

text \<open>The first statement: a single molecule becomes a list of one.\<close>

fun molecule_list :: "molecule_arg \<Rightarrow> string list option" where
  "molecule_list MolNone = None"
| "molecule_list (MolOne m) = Some [m]"
| "molecule_list (MolList ms) = Some ms"

text \<open>
  The error message of the source goes on with the two sets of molecules; the model
  stops it after the name of the reference argument.
\<close>

definition p_check_molecules_are_consistent ::
  "molecules option \<Rightarrow> string \<Rightarrow> 'v dict_or \<Rightarrow> string
     \<Rightarrow> error + (molecules option \<times> string)" where
  "p_check_molecules_are_consistent molecule_reference_set reference_name
       new_argument new_argument_name =
     (case new_argument of
        Dict d \<Rightarrow>
          (case molecule_reference_set of
             None \<Rightarrow> Inr (Some (KeySet (keys d)), new_argument_name)
           | Some r \<Rightarrow>
               if set (keys d) \<noteq> set (members r)
               then Inl (ValueError (''Keys of molecules in the '' @ new_argument_name
                           @ '' dictionary must be the same as given in `''
                           @ reference_name @ ''=`''))
               else Inr (Some (KeySet (keys d)), new_argument_name))
      | Value v \<Rightarrow> Inr (molecule_reference_set, reference_name))"

text \<open>
  Stage 1: the loop over \<^verbatim>\<open>DICT_INPUT_ARGUMENTS\<close>, a dictionary literal of three
  items, and the check that some molecule is known at its end.
\<close>

definition find_molecules ::
  "molecule_arg \<Rightarrow> string dict_or \<Rightarrow> real dict_or \<Rightarrow> databank_arg dict_or
     \<Rightarrow> error + molecules" where
  "find_molecules molecule isotope mole_fraction databank =
     (case p_check_molecules_are_consistent (map_option Listed (molecule_list molecule)) ''molecule''
             isotope ''isotope'' of
        Inl e \<Rightarrow> Inl e
      | Inr (r1, n1) \<Rightarrow>
         (case p_check_molecules_are_consistent r1 n1 mole_fraction ''mole_fraction'' of
            Inl e \<Rightarrow> Inl e
          | Inr (r2, n2) \<Rightarrow>
             (case p_check_molecules_are_consistent r2 n2 databank ''databank'' of
                Inl e \<Rightarrow> Inl e
              | Inr (r3, n3) \<Rightarrow>
                 (case r3 of
                    None \<Rightarrow> Inl (ValueError (''Please enter the molecule(s) to calculate in ''
                               @ ''the `molecule=` argument or as a dictionary in the following: ''
                               @ ''['isotope', 'mole_fraction', 'databank']''))
                  | Some r \<Rightarrow> Inr r))))"

text \<open>Stage 2: the arguments of each molecule.\<close>

record molecule_arguments =
  ma_isotope :: string
  ma_mole_fraction :: real
  ma_databank :: databank_arg
  ma_overpopulation :: "overpop option"

definition pick :: "'v dict_or \<Rightarrow> string \<Rightarrow> error + 'v" where
  "pick argument_dict m = (case argument_dict of Dict d \<Rightarrow> getitem d m | Value v \<Rightarrow> Inr v)"

text \<open>
  \<^verbatim>\<open>overpopulation\<close> is the same for all molecules unless it is a dictionary whose
  keys are all molecules of the call.
\<close>

definition is_same_for_all_molecules :: "env \<Rightarrow> overpop option \<Rightarrow> molecules \<Rightarrow> bool" where
  "is_same_for_all_molecules en overpopulation molecule_reference_set =
     (case overpopulation of
        Some (OvDict d) \<Rightarrow>
          if all_in en (keys d) (members molecule_reference_set) then False else True
      | _ \<Rightarrow> True)"

definition pick_overpopulation ::
  "env \<Rightarrow> overpop option \<Rightarrow> molecules \<Rightarrow> string \<Rightarrow> error + overpop option" where
  "pick_overpopulation en overpopulation molecule_reference_set m =
     (if is_same_for_all_molecules en overpopulation molecule_reference_set
      then Inr overpopulation
      else (case overpopulation of
              Some (OvDict d) \<Rightarrow> map_sum id Some (getitem d m)
            | _ \<Rightarrow> Inr overpopulation))"

fun collect :: "('a \<Rightarrow> error + 'b) \<Rightarrow> 'a list \<Rightarrow> error + 'b list" where
  "collect f [] = Inr []"
| "collect f (x # xs) =
     (case f x of
        Inl e \<Rightarrow> Inl e
      | Inr y \<Rightarrow> (case collect f xs of Inl e \<Rightarrow> Inl e | Inr ys \<Rightarrow> Inr (y # ys)))"

definition pick_dict_arguments ::
  "string dict_or \<Rightarrow> real dict_or \<Rightarrow> databank_arg dict_or \<Rightarrow> string
     \<Rightarrow> error + (string \<times> real \<times> databank_arg)" where
  "pick_dict_arguments isotope mole_fraction databank m =
     (case pick isotope m of
        Inl e \<Rightarrow> Inl e
      | Inr i \<Rightarrow>
         (case pick mole_fraction m of
            Inl e \<Rightarrow> Inl e
          | Inr x \<Rightarrow> (case pick databank m of Inl e \<Rightarrow> Inl e | Inr d \<Rightarrow> Inr (i, x, d))))"

text \<open>
  A dictionary filled by the assignments \<^verbatim>\<open>d[k] = v\<close> of a list of items, in this
  order: a key stays where it was first inserted and holds the last value assigned.
\<close>

definition dict_of_items :: "(string \<times> 'v) list \<Rightarrow> (string \<times> 'v) list" where
  "dict_of_items items =
     map (\<lambda>k. (k, the (map_of (rev items) k))) (first_occurrences (map fst items))"

text \<open>
  Stage 2 goes through \<^verbatim>\<open>molecule_reference_set\<close> twice: first in the iteration over
  \<^verbatim>\<open>DICT_INPUT_ARGUMENTS\<close> for every molecule, then the one that fills in
  \<^verbatim>\<open>overpopulation\<close>.
\<close>

definition molecule_dict ::
  "env \<Rightarrow> molecules \<Rightarrow> string dict_or \<Rightarrow> real dict_or \<Rightarrow> databank_arg dict_or
     \<Rightarrow> overpop option \<Rightarrow> error + (string \<times> molecule_arguments) list" where
  "molecule_dict en molecule_reference_set isotope mole_fraction databank overpopulation =
     (let ms = iteration en molecule_reference_set in
      case collect (pick_dict_arguments isotope mole_fraction databank) ms of
        Inl e \<Rightarrow> Inl e
      | Inr ixds \<Rightarrow>
         (case collect (pick_overpopulation en overpopulation molecule_reference_set) ms of
            Inl e \<Rightarrow> Inl e
          | Inr ovs \<Rightarrow>
              Inr (dict_of_items
                     (map (\<lambda>(m, (i, x, d), ov).
                             (m, \<lparr> ma_isotope = i, ma_mole_fraction = x, ma_databank = d,
                                   ma_overpopulation = ov \<rparr>))
                          (zip ms (zip ixds ovs))))))"

text \<open>Stage 3: one call of \<^verbatim>\<open>_calc_spectrum\<close> for each molecule, in order.\<close>

fun calc_all ::
  "env \<Rightarrow> common_args \<Rightarrow> (string \<times> molecule_arguments) list
     \<Rightarrow> event list \<times> (error + synth list)" where
  "calc_all en c [] = ([], Inr [])"
| "calc_all en c ((m, a) # rest) =
     (case p_calc_spectrum en c (ma_overpopulation a) (Some m) (ma_isotope a)
             (ma_mole_fraction a) (ma_databank a) of
        (evs, Inl e) \<Rightarrow> (evs, Inl e)
      | (evs, Inr s) \<Rightarrow>
         (case calc_all en c rest of
            (evs', Inl e) \<Rightarrow> (evs @ evs', Inl e)
          | (evs', Inr ss) \<Rightarrow> (evs @ evs', Inr (s # ss))))"

text \<open>
  \<^verbatim>\<open>calc_spectrum\<close>. The spectrum it returns is the merge of the spectra of the
  molecules, stored in a file when \<^verbatim>\<open>save_to\<close> is not empty.
\<close>

definition calc_spectrum ::
  "env \<Rightarrow> common_args \<Rightarrow> molecule_arg \<Rightarrow> string dict_or \<Rightarrow> real dict_or
     \<Rightarrow> databank_arg dict_or \<Rightarrow> overpop option \<Rightarrow> string
     \<Rightarrow> event list \<times> (error + synth list)" where
  "calc_spectrum en c molecule isotope mole_fraction databank overpopulation save_to =
     (case find_molecules molecule isotope mole_fraction databank of
        Inl e \<Rightarrow> ([], Inl e)
      | Inr molecule_reference_set \<Rightarrow>
         (case molecule_dict en molecule_reference_set isotope mole_fraction databank
                 overpopulation of
            Inl e \<Rightarrow> ([], Inl e)
          | Inr md \<Rightarrow>
             (case calc_all en c md of
                (evs, Inl e) \<Rightarrow> (evs, Inl e)
              | (evs, Inr s_list) \<Rightarrow>
                  (evs @ [MergeSlabs s_list] @ (if save_to \<noteq> [] then [Store save_to] else []),
                   Inr s_list))))"

subsection \<open>The conditions the properties speak of\<close>

text \<open>
  Equilibrium as the documentation puts it: \<^verbatim>\<open>Tvib\<close> and \<^verbatim>\<open>Trot\<close> are not given or
  equal to \<^verbatim>\<open>Tgas\<close>, there is no overpopulation, and self-absorption is not switched
  off. It is stated on the arguments of the call, to be compared with
  \<open>p_is_at_equilibrium\<close>.
\<close>

definition equilibrium_condition :: "common_args \<Rightarrow> overpop option \<Rightarrow> bool" where
  "equilibrium_condition c overpopulation =
     ((Tvib c = None \<or> Tvib c = Tgas c) \<and> (Trot c = None \<or> Trot c = Tgas c)
      \<and> overpopulation = None
      \<and> (case kwargs c ''self_absorption'' of None \<Rightarrow> True | Some v \<Rightarrow> truthy v))"

fun is_equilibrium_routine :: "synth \<Rightarrow> bool" where
  "is_equilibrium_routine (EqSpectrum T x l n) = True"
| "is_equilibrium_routine (EqSpectrumGpu T x p l n) = True"
| "is_equilibrium_routine (NonEqSpectrum Tv Tr Tt ov x l n) = False"

text \<open>
  The molecules known when an argument is looked at: the keys of the last dictionary
  among the arguments before it, or else the \<^verbatim>\<open>molecule\<close> argument.
\<close>

definition dict_keys :: "'v dict_or \<Rightarrow> string list option" where
  "dict_keys a = (case a of Dict d \<Rightarrow> Some (keys d) | Value v \<Rightarrow> None)"

fun established_molecules ::
  "string list option \<Rightarrow> string list option list \<Rightarrow> string list option" where
  "established_molecules r [] = r"
| "established_molecules r (None # as) = established_molecules r as"
| "established_molecules r (Some ks # as) = established_molecules (Some ks) as"

subsection \<open>Example calls\<close>

text \<open>
  The first example of the documentation, \<^verbatim>\<open>calc_spectrum(1900, 2300, molecule='CO',
  isotope='1,2,3', pressure=1.01325, Tgas=1000, mole_fraction=0.1, databank='hitran')\<close>,
  with the default values of the other arguments, and variants of it.
\<close>

definition example_env :: env where
  "example_env = \<lparr> exists = (\<lambda>s. False), nm2cm = (\<lambda>x. 10000000 / x),
                    air2vacuum = (\<lambda>x. x * (10003 / 10000)),
                    all_in = (\<lambda>ks ms. set ks \<subseteq> set ms), set_order = rev \<rparr>"

definition example_call :: common_args where
  "example_call =
     \<lparr> wavenum_min = Some 1900, wavenum_max = Some 2300,
       wavelength_min = None, wavelength_max = None,
       Tgas = Some 1000, Tvib = None, Trot = None, pressure = 1.01325, path_length = 1,
       medium = ''air'', wstep = Wstep 0.01, broadening_max_width = 10,
       cutoff = 1 / 10 ^ 27, parsum_mode = ''full summation'',
       optimization = Some ''min-RMS'', name = None, use_cached = True, verbose = True,
       mode = ''cpu'', export_lines = False, kwargs = Map.empty \<rparr>"

definition contradictory_call :: common_args where
  "contradictory_call = example_call\<lparr> wavelength_min := Some 4000 \<rparr>"

definition wavelength_call :: common_args where
  "wavelength_call =
     example_call\<lparr> wavenum_min := None, wavenum_max := None,
                    wavelength_min := Some 4000, wavelength_max := Some 5000 \<rparr>"

definition equilibrium_gpu_call :: common_args where
  "equilibrium_gpu_call = example_call\<lparr> mode := ''gpu'' \<rparr>"

definition equilibrium_other_call :: common_args where
  "equilibrium_other_call = example_call\<lparr> mode := ''tpu'' \<rparr>"

definition nonequilibrium_gpu_call :: common_args where
  "nonequilibrium_gpu_call =
     example_call\<lparr> Tgas := Some 300, Tvib := Some 2000, Trot := Some 2000, mode := ''gpu'' \<rparr>"

definition nonequilibrium_cpu_call :: common_args where
  "nonequilibrium_cpu_call =
     example_call\<lparr> Tgas := Some 300, Tvib := Some 2000, Trot := Some 2000 \<rparr>"

section \<open>The synthesis engine, after the specification\<close>

text \<open>
  The modules that compute a spectrum from the lines (line filter, broadening, template
  bank, density arrays, convolution) are not among the sources of the front end. This
  part follows their description in the specification, in exact real arithmetic.
\<close>

text \<open>
  Modelled from the spec: the errors of the engine (the exception classes are missing).
  The first four are the error taxonomy of section 7; the last two are the failures of
  arithmetic and indexing that the weight assignment and the scatter-add can meet, a
  division by a template spacing of zero and a bin outside the grid.
\<close>

datatype synthesis_error =
    InvalidPhysicalParameter
  | MissingCoefficient
  | InconsistentRange
  | NumericUnderflow
  | ZeroDivisionError
  | BinOutOfGrid

subsection \<open>Line table and range filter\<close>

text \<open>
  Modelled from the spec: a line of the Line Table (section 3; the table itself is
  missing), with its identifiers, its center wavenumber \<open>wav\<close>, its reference
  linestrength, its lower-state energy and its mass.
\<close>

record line =
  molecule_id :: nat
  isotope_id :: nat
  wav :: real
  reference_linestrength :: real
  lower_state_energy :: real
  mass :: real

text \<open>
  Modelled from the spec: the range filter (the loader is missing). Section 3: the
  calculation bound is \<open>[wavenum_min, wavenum_max]\<close> plus a margin of
  \<open>broadening_max_width / 2\<close> on each side, lines outside it are excluded before
  synthesis, a line exactly at \<open>wavenum_min - broadening_max_width / 2\<close> is included
  (section 8). Section 7: an empty line set after range filtering is the fatal error
  InconsistentRange.
\<close>

definition in_calculation_range :: "real \<Rightarrow> real \<Rightarrow> real \<Rightarrow> line \<Rightarrow> bool" where
  "in_calculation_range wmin wmax bmw l =
     (wmin - bmw / 2 \<le> wav l \<and> wav l \<le> wmax + bmw / 2)"

definition range_filter ::
  "real \<Rightarrow> real \<Rightarrow> real \<Rightarrow> line list \<Rightarrow> synthesis_error + line list" where
  "range_filter wmin wmax bmw lines =
     (let kept = filter (in_calculation_range wmin wmax bmw) lines
      in if kept = [] then Inl InconsistentRange else Inr kept)"

subsection \<open>Doppler width\<close>

text \<open>
  Modelled from the spec: the Doppler width of the Broadening Parameter Calculator
  (section 4.1; the broadening module is missing),
  \<open>gamma_gaussian = wavenumber * sqrt(2 ln2 * k_B * T / (mass * c^2))\<close>, which fails
  with InvalidPhysicalParameter if \<open>mass \<le> 0\<close> or \<open>T \<le> 0\<close>. The spec names the
  constants \<open>k_B\<close> and \<open>c\<close> without their units: they are parameters.
\<close>

definition gamma_gaussian ::
  "real \<Rightarrow> real \<Rightarrow> real \<Rightarrow> real \<Rightarrow> real \<Rightarrow> synthesis_error + real" where
  "gamma_gaussian k_B c wavenumber m T =
     (if m \<le> 0 \<or> T \<le> 0 then Inl InvalidPhysicalParameter
      else Inr (wavenumber * sqrt (2 * ln 2 * k_B * T / (m * c ^ 2))))"

subsection \<open>Template bank and LDM weights\<close>

text \<open>
  Modelled from the spec: a line as the LDM stage takes it (sections 4.1 and 4.3; the
  stage is missing): the bin of the working grid at its center, its linestrength and its
  pair of widths.
\<close>

record broadened_line =
  center_bin :: nat
  strength :: real
  width_gaussian :: real
  width_lorentzian :: real

text \<open>
  Modelled from the spec: the two weighting policies, "simple" and "min-RMS".
  \<^verbatim>\<open>optimization=None\<close> is \<open>None\<close> of type \<open>weighting option\<close>.
\<close>

datatype weighting = Simple | MinRMS

text \<open>
  Modelled from the spec: the explicit configuration value of the design notes (the
  engine's parameters are missing). \<open>points_per_decade\<close> is the number of templates per
  decade of width; \<open>tolerance\<close> the numeric tolerance under which a line is dropped;
  \<open>min_rms_weight t d\<close> the weight of the min-RMS policy at relative position \<open>t\<close>
  between two templates of log-spacing \<open>d\<close>, a formula that the spec leaves to the
  paper it cites; \<open>lineshape g l j\<close> the Voigt profile of widths \<open>g\<close> and \<open>l\<close> at
  \<open>j\<close> bins from its center; \<open>half_width\<close> the number of bins of the profile on each
  side of its center; \<open>grid_step\<close> is \<^verbatim>\<open>wstep\<close>.
\<close>

record engine_config =
  points_per_decade :: nat
  tolerance :: real
  min_rms_weight :: "real \<Rightarrow> real \<Rightarrow> real"
  lineshape :: "real \<Rightarrow> real \<Rightarrow> int \<Rightarrow> real"
  half_width :: nat
  grid_step :: real

text \<open>
  Modelled from the spec: one axis of \<^verbatim>\<open>build_templates\<close> (section 4.2), log-spaced
  from the smallest to the largest width with \<open>points_per_decade\<close> points per decade.
  With fewer than two distinct widths the axis is the single width. No widths at all is
  the empty line set of section 7.
\<close>

definition log_axis :: "nat \<Rightarrow> real list \<Rightarrow> synthesis_error + real list" where
  "log_axis ppd widths =
     (if widths = [] then Inl InconsistentRange
      else if length (remdups widths) < 2 then Inr [hd widths]
      else let lo = Min (set widths); hi = Max (set widths)
           in if lo < 0 then Inl InvalidPhysicalParameter
              else if lo = 0 \<or> ppd = 0 then Inl ZeroDivisionError
              else Inr (map (\<lambda>k. lo * 10 powr (real k / real ppd))
                          [0 ..< Suc (nat \<lceil>real ppd * log 10 (hi / lo)\<rceil>)]))"

definition build_templates ::
  "nat \<Rightarrow> broadened_line list \<Rightarrow> synthesis_error + (real list \<times> real list)" where
  "build_templates ppd lines =
     (case log_axis ppd (map width_gaussian lines) of
        Inl e \<Rightarrow> Inl e
      | Inr ag \<Rightarrow>
         (case log_axis ppd (map width_lorentzian lines) of
            Inl e \<Rightarrow> Inl e
          | Inr al \<Rightarrow> Inr (ag, al)))"

text \<open>
  Modelled from the spec: the weight assignment of section 4.3 along one axis. The
  bracketing pair is \<open>(i, i + 1)\<close>; the relative position of the width between the two
  templates divides by their spacing; "simple" takes the position as the weight of the
  upper template, "min-RMS" the weight computed from position and spacing. A single
  template has weight 1.
\<close>

definition bracket :: "real list \<Rightarrow> real \<Rightarrow> nat" where
  "bracket axis w = min (length axis - 2) (length (takeWhile (\<lambda>a. a \<le> w) (tl axis)))"

definition axis_weights ::
  "(real \<Rightarrow> real \<Rightarrow> real) \<Rightarrow> weighting \<Rightarrow> real list \<Rightarrow> real
     \<Rightarrow> synthesis_error + (nat \<times> real) list" where
  "axis_weights min_rms policy axis w =
     (if length axis < 2 then Inr [(0, 1)]
      else let i = bracket axis w;
               spacing = ln (axis ! Suc i) - ln (axis ! i)
           in if spacing = 0 then Inl ZeroDivisionError
              else let t = (ln w - ln (axis ! i)) / spacing;
                       a = (case policy of Simple \<Rightarrow> t | MinRMS \<Rightarrow> min_rms t spacing)
                   in Inr [(i, 1 - a), (Suc i, a)])"

text \<open>
  The corners of a line in the two-dimensional bank, up to four, each with the product
  of the weights along the two axes. The template of indices \<open>(ig, il)\<close> has the number
  \<open>ig * length al + il\<close>.
\<close>

definition corner_weights ::
  "(real \<Rightarrow> real \<Rightarrow> real) \<Rightarrow> weighting \<Rightarrow> real list \<Rightarrow> real list \<Rightarrow> broadened_line
     \<Rightarrow> synthesis_error + (nat \<times> real) list" where
  "corner_weights min_rms policy ag al l =
     (case axis_weights min_rms policy ag (width_gaussian l) of
        Inl e \<Rightarrow> Inl e
      | Inr wg \<Rightarrow>
         (case axis_weights min_rms policy al (width_lorentzian l) of
            Inl e \<Rightarrow> Inl e
          | Inr wl \<Rightarrow>
              Inr (concat (map (\<lambda>(ig, cg). map (\<lambda>(il, cl). (ig * length al + il, cg * cl)) wl)
                             wg))))"

text \<open>
  Modelled from the spec: "lines whose computed weight underflows a configurable numeric
  tolerance are dropped" (section 4.3). The weight computed for a line at a corner is
  its linestrength times the corner weight; the line is dropped when all of them are
  under the tolerance.
\<close>

definition underflows :: "real \<Rightarrow> real \<Rightarrow> (nat \<times> real) list \<Rightarrow> bool" where
  "underflows tol s cs = list_all (\<lambda>(t, w). \<bar>s * w\<bar> < tol) cs"

subsection \<open>Density arrays\<close>

text \<open>
  Modelled from the spec: the density arrays of section 3 (the scatter-add is missing),
  one array of bins for each template, filled by adding for each line and each of its
  corners the linestrength times the corner weight at the line's center bin.
\<close>

definition add_at ::
  "real list list \<Rightarrow> nat \<Rightarrow> nat \<Rightarrow> real \<Rightarrow> synthesis_error + real list list" where
  "add_at D t b v =
     (if t < length D \<and> b < length (D ! t)
      then Inr (D[t := (D ! t)[b := D ! t ! b + v]])
      else Inl BinOutOfGrid)"

fun add_corners ::
  "real list list \<Rightarrow> nat \<Rightarrow> real \<Rightarrow> (nat \<times> real) list \<Rightarrow> synthesis_error + real list list" where
  "add_corners D b s [] = Inr D"
| "add_corners D b s ((t, w) # cs) =
     (case add_at D t b (s * w) of
        Inl e \<Rightarrow> Inl e
      | Inr D' \<Rightarrow> add_corners D' b s cs)"

fun density_arrays ::
  "(broadened_line \<Rightarrow> synthesis_error + (nat \<times> real) list) \<Rightarrow> real \<Rightarrow> real list list
     \<Rightarrow> broadened_line list \<Rightarrow> synthesis_error + real list list" where
  "density_arrays weights tol D [] = Inr D"
| "density_arrays weights tol D (l # ls) =
     (case weights l of
        Inl e \<Rightarrow> Inl e
      | Inr cs \<Rightarrow>
          if underflows tol (strength l) cs then density_arrays weights tol D ls
          else (case add_corners D (center_bin l) (strength l) cs of
                  Inl e \<Rightarrow> Inl e
                | Inr D' \<Rightarrow> density_arrays weights tol D' ls))"


definition ldm_density ::
  "engine_config \<Rightarrow> weighting \<Rightarrow> nat \<Rightarrow> broadened_line list
     \<Rightarrow> synthesis_error + (real list \<times> real list \<times> real list list)" where
  "ldm_density cfg policy n lines =
     (case build_templates (points_per_decade cfg) lines of
        Inl e \<Rightarrow> Inl e
      | Inr (ag, al) \<Rightarrow>
         (case density_arrays (corner_weights (min_rms_weight cfg) policy ag al)
                 (tolerance cfg) (replicate (length ag * length al) (replicate n 0)) lines of
            Inl e \<Rightarrow> Inl e
          | Inr D \<Rightarrow> Inr (ag, al, D)))"


subsection \<open>Synthesis\<close>














subsection \<open>Example inputs of the engine\<close>

text \<open>
  Three lines around the lower end of the calculation range of
  \<^verbatim>\<open>wavenum_min=2000, broadening_max_width=10\<close>.
\<close>

definition example_lines :: "line list" where
  "example_lines =
     [\<lparr> molecule_id = 5, isotope_id = 1, wav = 1994.9, reference_linestrength = 1,
        lower_state_energy = 0, mass = 28 \<rparr>,
      \<lparr> molecule_id = 5, isotope_id = 1, wav = 1995, reference_linestrength = 1,
        lower_state_energy = 0, mass = 28 \<rparr>,
      \<lparr> molecule_id = 5, isotope_id = 1, wav = 1995.1, reference_linestrength = 1,
        lower_state_energy = 0, mass = 28 \<rparr>]"

text \<open>
  A single line at the bin 1 of a grid, and a configuration whose profile is the
  triangle \<open>1/4, 1/2, 1/4\<close> on three bins of step 1.
\<close>

definition single_line :: "broadened_line list" where
  "single_line = [\<lparr> center_bin = 1, strength = 3, width_gaussian = 1 / 10, width_lorentzian = 0 \<rparr>]"

definition example_config :: engine_config where
  "example_config =
     \<lparr> points_per_decade = 4, tolerance = 0, min_rms_weight = (\<lambda>t d. t),
       lineshape = (\<lambda>g l j. if j = 0 then 1 / 2 else 1 / 4),
       half_width = 1, grid_step = 1 \<rparr>"


section \<open>Properties of the front end\<close>

subsection \<open>Equilibrium\<close>

lemma check_conditions_self_absorption:
  "check_conditions c db = Inr kw \<Longrightarrow> kw ''self_absorption'' = kwargs c ''self_absorption''"
  by (auto simp: check_conditions_def Let_def split: if_splits)

lemma is_at_equilibrium_iff:
  "check_conditions c db = Inr kw \<Longrightarrow>
     p_is_at_equilibrium c ovp kw = equilibrium_condition c ovp"
  by (frule check_conditions_self_absorption)
     (auto simp: p_is_at_equilibrium_def equilibrium_condition_def split: option.splits)

lemma prepare_equilibrium:
  "prepare en c ovp mol isot db = (evs, Inr eq) \<Longrightarrow> eq = equilibrium_condition c ovp"
  by (auto simp: prepare_def Let_def is_at_equilibrium_iff split: sum.splits prod.splits)

lemma prepare_no_synth: "Synth s \<notin> set (fst (prepare en c ovp mol isot db))"
  by (auto simp: prepare_def Let_def load_databank_step_def map_sum_def
           split: sum.splits prod.splits databank_arg.splits list.splits if_splits)

lemma prepare_example_call:
  "snd (prepare example_env example_call None (Some ''CO'') ''1,2,3'' (DbName ''hitran''))
     = Inr True"
  by (simp add: example_call_def prepare_def wavenumber_range_def check_conditions_def
        p_is_at_equilibrium_def drop_columns_def load_databank_step_def)

lemma prepare_equilibrium_gpu_call:
  "snd (prepare example_env equilibrium_gpu_call None (Some ''CO'') ''1,2,3''
          (DbName ''hitran'')) = Inr True"
  by (simp add: equilibrium_gpu_call_def example_call_def prepare_def wavenumber_range_def
        check_conditions_def p_is_at_equilibrium_def drop_columns_def load_databank_step_def)

lemma prepare_equilibrium_other_call:
  "snd (prepare example_env equilibrium_other_call None (Some ''CO'') ''1,2,3''
          (DbName ''hitran'')) = Inr True"
  by (simp add: equilibrium_other_call_def example_call_def prepare_def wavenumber_range_def
        check_conditions_def p_is_at_equilibrium_def drop_columns_def load_databank_step_def)

lemma prepare_nonequilibrium_cpu_call:
  "snd (prepare example_env nonequilibrium_cpu_call None (Some ''CO'') ''1,2,3''
          (DbName ''hitran'')) = Inr False"
  by (simp add: nonequilibrium_cpu_call_def example_call_def prepare_def wavenumber_range_def
        check_conditions_def p_is_at_equilibrium_def drop_columns_def load_databank_step_def)

lemma prepare_nonequilibrium_gpu_call:
  "snd (prepare example_env nonequilibrium_gpu_call None (Some ''CO'') ''1,2,3''
          (DbName ''hitran'')) = Inr False"
  by (simp add: nonequilibrium_gpu_call_def example_call_def prepare_def wavenumber_range_def
        check_conditions_def p_is_at_equilibrium_def drop_columns_def load_databank_step_def)

text \<open>
  Whatever the mode, a call that returns a spectrum made it with an equilibrium routine
  exactly when the conditions are at equilibrium.
\<close>

lemma returned_spectrum_routine:
  assumes "snd (p_calc_spectrum en c ovp mol isot mf db) = Inr s"
  shows "is_equilibrium_routine s \<longleftrightarrow> equilibrium_condition c ovp"
proof (cases "prepare en c ovp mol isot db")
  case (Pair evs r)
  show ?thesis
  proof (cases r)
    case (Inl e)
    with Pair assms show ?thesis by (simp add: p_calc_spectrum_def)
  next
    case (Inr eq)
    with Pair have "eq = equilibrium_condition c ovp" by (simp add: prepare_equilibrium)
    with Pair Inr assms show ?thesis
      by (auto simp: p_calc_spectrum_def run_synthesis_def split: if_splits)
  qed
qed

subsection \<open>Contradictory ranges\<close>

text \<open>
  Claim C2. When at least one wavelength bound and at least one wavenumber bound are
  given, \<^verbatim>\<open>_calc_spectrum\<close> raises its ValueError at once: no factory has been built,
  no databank loaded and no synthesis routine called, so the list of factory calls is
  empty.
\<close>

theorem contradictory_range_raises_first:
  assumes "wavelength_min c \<noteq> None \<or> wavelength_max c \<noteq> None"
      and "wavenum_min c \<noteq> None \<or> wavenum_max c \<noteq> None"
  shows "p_calc_spectrum en c ovp mol isot mf db =
           ([], Inl (ValueError ''Wavenumber and Wavelength both given... it's time to choose!''))"
  using assms by (simp add: p_calc_spectrum_def prepare_def wavenumber_range_def)

theorem contradictory_range_raises_first_witness:
  "wavelength_min contradictory_call = Some 4000
   \<and> wavenum_min contradictory_call = Some 1900
   \<and> p_calc_spectrum example_env contradictory_call None (Some ''CO'') ''1,2,3'' (1 / 10)
        (DbName ''hitran'')
      = ([], Inl (ValueError ''Wavenumber and Wavelength both given... it's time to choose!''))"
proof -
  have a: "wavelength_min contradictory_call \<noteq> None \<or> wavelength_max contradictory_call \<noteq> None"
    by (simp add: contradictory_call_def)
  have b: "wavenum_min contradictory_call \<noteq> None \<or> wavenum_max contradictory_call \<noteq> None"
    by (simp add: contradictory_call_def example_call_def)
  have v: "wavelength_min contradictory_call = Some 4000
           \<and> wavenum_min contradictory_call = Some 1900"
    by (simp add: contradictory_call_def example_call_def)
  show ?thesis
    using v contradictory_range_raises_first [OF a b] by simp
qed

subsection \<open>Choice between equilibrium and non-equilibrium\<close>

text \<open>
  Claim C3 says that a call whose conditions are not at equilibrium goes to the
  non-equilibrium routine. With \<^verbatim>\<open>mode='gpu'\<close>, \<^verbatim>\<open>Tvib = Trot = 2000\<close> and
  \<^verbatim>\<open>Tgas = 300\<close> the call raises \<^verbatim>\<open>NotImplementedError('gpu')\<close> instead and no
  routine is called.
\<close>

theorem dispatch_counterexample:
  "\<not> equilibrium_condition nonequilibrium_gpu_call None
   \<and> snd (p_calc_spectrum example_env nonequilibrium_gpu_call None (Some ''CO'') ''1,2,3''
            (1 / 10) (DbName ''hitran''))
       = Inl (NotImplementedError ''gpu'')"
  by (simp add: equilibrium_condition_def nonequilibrium_gpu_call_def example_call_def
        p_calc_spectrum_def prepare_def wavenumber_range_def check_conditions_def
        p_is_at_equilibrium_def drop_columns_def load_databank_step_def run_synthesis_def)

text \<open>
  Claim C3, amended. For every call that gets as far as the choice of the routine (the
  input checks and the loading of the databank have passed): the spectrum is computed by
  the equilibrium routine, from \<^verbatim>\<open>Tgas\<close> alone, if and only if \<^verbatim>\<open>Tvib\<close> and
  \<^verbatim>\<open>Trot\<close> are \<^verbatim>\<open>None\<close> or equal to \<^verbatim>\<open>Tgas\<close>, there is no overpopulation and
  self-absorption is not switched off. At equilibrium the routine is \<^verbatim>\<open>eq_spectrum\<close>
  for \<^verbatim>\<open>mode == 'cpu'\<close> and \<^verbatim>\<open>eq_spectrum_gpu\<close> for \<^verbatim>\<open>mode == 'gpu'\<close>, and any
  other mode raises \<^verbatim>\<open>ValueError(mode)\<close>. Otherwise \<^verbatim>\<open>non_eq_spectrum\<close> is called
  with \<^verbatim>\<open>Tvib\<close>, \<^verbatim>\<open>Trot\<close> and \<^verbatim>\<open>Ttrans = Tgas\<close> for \<^verbatim>\<open>mode == 'cpu'\<close>, and
  any other mode raises \<^verbatim>\<open>NotImplementedError(mode)\<close>. The routine is the last call
  made, and a spectrum that is returned comes from an equilibrium routine exactly when
  the condition holds.
\<close>

theorem dispatch_by_mode:
  assumes "prepare en c ovp mol isot db = (evs, Inr eq)"
  shows "p_calc_spectrum en c ovp mol isot mf db =
     (if equilibrium_condition c ovp
      then (if mode c = ''cpu''
            then (evs @ [Synth (EqSpectrum (Tgas c) mf (path_length c) (name c))],
                  Inr (EqSpectrum (Tgas c) mf (path_length c) (name c)))
            else if mode c = ''gpu''
            then (evs @ [Synth (EqSpectrumGpu (Tgas c) mf (pressure c) (path_length c) (name c))],
                  Inr (EqSpectrumGpu (Tgas c) mf (pressure c) (path_length c) (name c)))
            else (evs, Inl (ValueError (mode c))))
      else (if mode c = ''cpu''
            then (evs @ [Synth (NonEqSpectrum (Tvib c) (Trot c) (Tgas c) ovp mf
                                  (path_length c) (name c))],
                  Inr (NonEqSpectrum (Tvib c) (Trot c) (Tgas c) ovp mf (path_length c) (name c)))
            else (evs, Inl (NotImplementedError (mode c)))))
     \<and> (\<forall>s. snd (p_calc_spectrum en c ovp mol isot mf db) = Inr s \<longrightarrow>
            (is_equilibrium_routine s \<longleftrightarrow> equilibrium_condition c ovp))"
proof -
  from assms have eq: "eq = equilibrium_condition c ovp" by (rule prepare_equilibrium)
  have table: "p_calc_spectrum en c ovp mol isot mf db =
     (if equilibrium_condition c ovp
      then (if mode c = ''cpu''
            then (evs @ [Synth (EqSpectrum (Tgas c) mf (path_length c) (name c))],
                  Inr (EqSpectrum (Tgas c) mf (path_length c) (name c)))
            else if mode c = ''gpu''
            then (evs @ [Synth (EqSpectrumGpu (Tgas c) mf (pressure c) (path_length c) (name c))],
                  Inr (EqSpectrumGpu (Tgas c) mf (pressure c) (path_length c) (name c)))
            else (evs, Inl (ValueError (mode c))))
      else (if mode c = ''cpu''
            then (evs @ [Synth (NonEqSpectrum (Tvib c) (Trot c) (Tgas c) ovp mf
                                  (path_length c) (name c))],
                  Inr (NonEqSpectrum (Tvib c) (Trot c) (Tgas c) ovp mf (path_length c) (name c)))
            else (evs, Inl (NotImplementedError (mode c)))))"
    using assms eq by (simp add: p_calc_spectrum_def run_synthesis_def)
  have routine: "is_equilibrium_routine s \<longleftrightarrow> equilibrium_condition c ovp"
    if "snd (p_calc_spectrum en c ovp mol isot mf db) = Inr s" for s
    using that by (rule returned_spectrum_routine)
  from table routine show ?thesis by blast
qed

theorem dispatch_by_mode_witness:
  "snd (p_calc_spectrum example_env example_call None (Some ''CO'') ''1,2,3'' (1 / 10)
          (DbName ''hitran'')) = Inr (EqSpectrum (Some 1000) (1 / 10) 1 None)
   \<and> snd (p_calc_spectrum example_env equilibrium_gpu_call None (Some ''CO'') ''1,2,3'' (1 / 10)
          (DbName ''hitran'')) = Inr (EqSpectrumGpu (Some 1000) (1 / 10) 1.01325 1 None)
   \<and> snd (p_calc_spectrum example_env equilibrium_other_call None (Some ''CO'') ''1,2,3'' (1 / 10)
          (DbName ''hitran'')) = Inl (ValueError ''tpu'')
   \<and> snd (p_calc_spectrum example_env nonequilibrium_cpu_call None (Some ''CO'') ''1,2,3'' (1 / 10)
          (DbName ''hitran''))
      = Inr (NonEqSpectrum (Some 2000) (Some 2000) (Some 300) None (1 / 10) 1 None)
   \<and> snd (p_calc_spectrum example_env nonequilibrium_gpu_call None (Some ''CO'') ''1,2,3'' (1 / 10)
          (DbName ''hitran'')) = Inl (NotImplementedError ''gpu'')"
proof -
  let ?p = "\<lambda>c. prepare example_env c None (Some ''CO'') ''1,2,3'' (DbName ''hitran'')"
  have p1: "?p example_call = (fst (?p example_call), Inr True)"
    using prepare_example_call by (simp add: prod_eq_iff)
  have p2: "?p equilibrium_gpu_call = (fst (?p equilibrium_gpu_call), Inr True)"
    using prepare_equilibrium_gpu_call by (simp add: prod_eq_iff)
  have p3: "?p equilibrium_other_call = (fst (?p equilibrium_other_call), Inr True)"
    using prepare_equilibrium_other_call by (simp add: prod_eq_iff)
  have p4: "?p nonequilibrium_cpu_call = (fst (?p nonequilibrium_cpu_call), Inr False)"
    using prepare_nonequilibrium_cpu_call by (simp add: prod_eq_iff)
  have p5: "?p nonequilibrium_gpu_call = (fst (?p nonequilibrium_gpu_call), Inr False)"
    using prepare_nonequilibrium_gpu_call by (simp add: prod_eq_iff)
  have e: "equilibrium_condition example_call None"
    "equilibrium_condition equilibrium_gpu_call None"
    "equilibrium_condition equilibrium_other_call None"
    "\<not> equilibrium_condition nonequilibrium_cpu_call None"
    "\<not> equilibrium_condition nonequilibrium_gpu_call None"
    by (simp_all add: equilibrium_condition_def example_call_def equilibrium_gpu_call_def
          equilibrium_other_call_def nonequilibrium_cpu_call_def nonequilibrium_gpu_call_def)
  have v1: "mode example_call = ''cpu'' \<and> Tgas example_call = Some 1000
            \<and> path_length example_call = 1 \<and> name example_call = None"
    by (simp add: example_call_def)
  have v2: "mode equilibrium_gpu_call = ''gpu'' \<and> Tgas equilibrium_gpu_call = Some 1000
            \<and> pressure equilibrium_gpu_call = 1.01325
            \<and> path_length equilibrium_gpu_call = 1 \<and> name equilibrium_gpu_call = None"
    by (simp add: equilibrium_gpu_call_def example_call_def)
  have v3: "mode equilibrium_other_call = ''tpu''"
    by (simp add: equilibrium_other_call_def example_call_def)
  have v4: "mode nonequilibrium_cpu_call = ''cpu'' \<and> Tgas nonequilibrium_cpu_call = Some 300
            \<and> Tvib nonequilibrium_cpu_call = Some 2000 \<and> Trot nonequilibrium_cpu_call = Some 2000
            \<and> path_length nonequilibrium_cpu_call = 1 \<and> name nonequilibrium_cpu_call = None"
    by (simp add: nonequilibrium_cpu_call_def example_call_def)
  have v5: "mode nonequilibrium_gpu_call = ''gpu''"
    by (simp add: nonequilibrium_gpu_call_def example_call_def)
  have c1: "snd (p_calc_spectrum example_env example_call None (Some ''CO'') ''1,2,3'' (1 / 10)
          (DbName ''hitran'')) = Inr (EqSpectrum (Some 1000) (1 / 10) 1 None)"
    using dispatch_by_mode [OF p1, of "1 / 10"] e(1) v1 by simp
  have c2: "snd (p_calc_spectrum example_env equilibrium_gpu_call None (Some ''CO'') ''1,2,3''
          (1 / 10) (DbName ''hitran'')) = Inr (EqSpectrumGpu (Some 1000) (1 / 10) 1.01325 1 None)"
    using dispatch_by_mode [OF p2, of "1 / 10"] e(2) v2 by simp
  have c3: "snd (p_calc_spectrum example_env equilibrium_other_call None (Some ''CO'') ''1,2,3''
          (1 / 10) (DbName ''hitran'')) = Inl (ValueError ''tpu'')"
    using dispatch_by_mode [OF p3, of "1 / 10"] e(3) v3 by simp
  have c4: "snd (p_calc_spectrum example_env nonequilibrium_cpu_call None (Some ''CO'') ''1,2,3''
          (1 / 10) (DbName ''hitran''))
      = Inr (NonEqSpectrum (Some 2000) (Some 2000) (Some 300) None (1 / 10) 1 None)"
    using dispatch_by_mode [OF p4, of "1 / 10"] e(4) v4 by simp
  have c5: "snd (p_calc_spectrum example_env nonequilibrium_gpu_call None (Some ''CO'') ''1,2,3''
          (1 / 10) (DbName ''hitran'')) = Inl (NotImplementedError ''gpu'')"
    using dispatch_by_mode [OF p5, of "1 / 10"] e(5) v5 by simp
  from c1 c2 c3 c4 c5 show ?thesis by (intro conjI)
qed

subsection \<open>Non-equilibrium on another mode than the CPU\<close>

text \<open>
  Claim C8 says that every call that is not at equilibrium and whose mode is not
  \<^verbatim>\<open>'cpu'\<close> raises NotImplementedError. The checks that come before decide first: with
  \<^verbatim>\<open>databank=None\<close> the same call raises the ValueError of the databank check.
\<close>

theorem nonequilibrium_gpu_counterexample:
  "\<not> equilibrium_condition nonequilibrium_gpu_call None \<and> mode nonequilibrium_gpu_call \<noteq> ''cpu''
   \<and> snd (p_calc_spectrum example_env nonequilibrium_gpu_call None (Some ''CO'') ''1,2,3''
            (1 / 10) DbNone)
       = Inl (ValueError ''Give a databank name'')"
  by (simp add: equilibrium_condition_def nonequilibrium_gpu_call_def example_call_def
        p_calc_spectrum_def prepare_def wavenumber_range_def check_conditions_def)

text \<open>
  Claim C8, amended. A call that is not at equilibrium and whose mode is not \<^verbatim>\<open>'cpu'\<close>
  always raises an error and returns no spectrum, and no synthesis routine is ever
  called; the error is \<^verbatim>\<open>NotImplementedError(mode)\<close> whenever the call gets as far as
  the choice of the routine (the input checks and the loading of the databank have passed).
\<close>

theorem nonequilibrium_needs_cpu:
  assumes "\<not> equilibrium_condition c ovp" and "mode c \<noteq> ''cpu''"
  shows "(\<exists>e. snd (p_calc_spectrum en c ovp mol isot mf db) = Inl e)
       \<and> (\<forall>s. Synth s \<notin> set (fst (p_calc_spectrum en c ovp mol isot mf db)))
       \<and> (\<forall>evs eq. prepare en c ovp mol isot db = (evs, Inr eq) \<longrightarrow>
             p_calc_spectrum en c ovp mol isot mf db = (evs, Inl (NotImplementedError (mode c))))"
proof (cases "prepare en c ovp mol isot db")
  case (Pair evs r)
  have ns: "\<And>s. Synth s \<notin> set evs"
    using prepare_no_synth[of _ en c ovp mol isot db] Pair by simp
  show ?thesis
  proof (cases r)
    case (Inl e)
    with Pair ns show ?thesis by (simp add: p_calc_spectrum_def)
  next
    case (Inr eq)
    with Pair have "eq = equilibrium_condition c ovp" by (simp add: prepare_equilibrium)
    with assms Inr Pair ns show ?thesis by (simp add: p_calc_spectrum_def run_synthesis_def)
  qed
qed

theorem nonequilibrium_needs_cpu_witness:
  "\<not> equilibrium_condition nonequilibrium_gpu_call None \<and> mode nonequilibrium_gpu_call \<noteq> ''cpu''
   \<and> snd (prepare example_env nonequilibrium_gpu_call None (Some ''CO'') ''1,2,3''
            (DbName ''hitran'')) = Inr False
   \<and> snd (p_calc_spectrum example_env nonequilibrium_gpu_call None (Some ''CO'') ''1,2,3''
            (1 / 10) (DbName ''hitran'')) = Inl (NotImplementedError ''gpu'')"
proof -
  have e: "\<not> equilibrium_condition nonequilibrium_gpu_call None"
    by (simp add: equilibrium_condition_def nonequilibrium_gpu_call_def example_call_def)
  have m: "mode nonequilibrium_gpu_call \<noteq> ''cpu''"
    by (simp add: nonequilibrium_gpu_call_def example_call_def)
  have mg: "mode nonequilibrium_gpu_call = ''gpu''"
    by (simp add: nonequilibrium_gpu_call_def example_call_def)
  have p: "prepare example_env nonequilibrium_gpu_call None (Some ''CO'') ''1,2,3'' (DbName ''hitran'')
      = (fst (prepare example_env nonequilibrium_gpu_call None (Some ''CO'') ''1,2,3''
                (DbName ''hitran'')), Inr False)"
    using prepare_nonequilibrium_gpu_call by (simp add: prod_eq_iff)
  from nonequilibrium_needs_cpu [OF e m, of example_env "Some ''CO''" "''1,2,3''" "1 / 10"
         "DbName ''hitran''"] p
  have "p_calc_spectrum example_env nonequilibrium_gpu_call None (Some ''CO'') ''1,2,3''
            (1 / 10) (DbName ''hitran'')
        = (fst (prepare example_env nonequilibrium_gpu_call None (Some ''CO'') ''1,2,3''
                (DbName ''hitran'')), Inl (NotImplementedError (mode nonequilibrium_gpu_call)))"
    by blast
  with e m mg prepare_nonequilibrium_gpu_call show ?thesis by simp
qed

subsection \<open>Wavelengths to wavenumbers\<close>

text \<open>
  Claim C10. When both wavenumber bounds are \<^verbatim>\<open>None\<close> and both wavelength bounds are
  given, the working range has the bounds exchanged: its lower end is \<^verbatim>\<open>nm2cm\<close> of
  \<^verbatim>\<open>wavelength_max\<close> and its upper end \<^verbatim>\<open>nm2cm\<close> of \<^verbatim>\<open>wavelength_min\<close>, each
  corrected by \<^verbatim>\<open>air2vacuum\<close> first when the medium is air (any other medium than air
  and vacuum has been refused before). With \<^verbatim>\<open>nm2cm\<close> decreasing and
  \<^verbatim>\<open>air2vacuum\<close> increasing on positive wavelengths, as the conversions of
  radis.phys are, \<^verbatim>\<open>wavelength_min < wavelength_max\<close> gives
  \<^verbatim>\<open>wavenum_min < wavenum_max\<close>.
\<close>

theorem wavelength_bounds_exchanged:
  assumes "wavenum_min c = None" "wavenum_max c = None"
      and "wavelength_min c = Some lmin" "wavelength_max c = Some lmax"
  shows "wavenumber_range en c =
          (if medium c = ''vacuum'' then Inr (nm2cm en lmax, nm2cm en lmin)
           else if medium c = ''air''
           then Inr (nm2cm en (air2vacuum en lmax), nm2cm en (air2vacuum en lmin))
           else Inl (NotImplementedError (''Unknown propagating medium: '' @ medium c)))
       \<and> ((medium c = ''vacuum'' \<or> medium c = ''air'')
            \<and> (\<forall>x y. 0 < x \<and> x < y \<longrightarrow> nm2cm en y < nm2cm en x)
            \<and> (\<forall>x y. 0 < x \<and> x < y \<longrightarrow> 0 < air2vacuum en x \<and> air2vacuum en x < air2vacuum en y)
            \<and> 0 < lmin \<and> lmin < lmax
          \<longrightarrow> (\<exists>wmin wmax. wavenumber_range en c = Inr (wmin, wmax) \<and> wmin < wmax))"
  using assms by (auto simp: wavenumber_range_def)

theorem wavelength_bounds_exchanged_witness:
  "wavenumber_range example_env wavelength_call
     = Inr (nm2cm example_env (air2vacuum example_env 5000),
            nm2cm example_env (air2vacuum example_env 4000))
   \<and> (\<exists>wmin wmax. wavenumber_range example_env wavelength_call = Inr (wmin, wmax) \<and> wmin < wmax)"
proof -
  have h: "wavenum_min wavelength_call = None" "wavenum_max wavelength_call = None"
     "wavelength_min wavelength_call = Some 4000" "wavelength_max wavelength_call = Some 5000"
    by (simp_all add: wavelength_call_def example_call_def)
  have med: "medium wavelength_call = ''air''"
    by (simp add: wavelength_call_def example_call_def)
  have dec: "\<forall>x y. 0 < x \<and> x < y \<longrightarrow> nm2cm example_env y < nm2cm example_env x"
    by (simp add: example_env_def frac_less2)
  have inc: "\<forall>x y. 0 < x \<and> x < y \<longrightarrow>
               0 < air2vacuum example_env x \<and> air2vacuum example_env x < air2vacuum example_env y"
    by (simp add: example_env_def)
  note t = wavelength_bounds_exchanged [OF h, of example_env]
  have a: "wavenumber_range example_env wavelength_call
            = Inr (nm2cm example_env (air2vacuum example_env 5000),
                   nm2cm example_env (air2vacuum example_env 4000))"
    using t med by simp
  have b: "\<exists>wmin wmax. wavenumber_range example_env wavelength_call = Inr (wmin, wmax) \<and> wmin < wmax"
  proof -
    have pos: "(0::real) < 4000 \<and> (4000::real) < 5000" by simp
    from t med dec inc pos show ?thesis by blast
  qed
  from a b show ?thesis by (rule conjI)
qed

subsection \<open>Molecules of the dictionary arguments\<close>

text \<open>
  Claim C9. When one of \<^verbatim>\<open>isotope\<close>, \<^verbatim>\<open>mole_fraction\<close>, \<^verbatim>\<open>databank\<close> (the
  argument number \<open>i\<close>) is a dictionary whose set of keys differs from the molecules
  known so far, from \<^verbatim>\<open>molecule\<close> or from an earlier dictionary, \<^verbatim>\<open>calc_spectrum\<close>
  raises ValueError and nothing has been computed: no call to the factory was made.
\<close>

theorem inconsistent_molecules_raise:
  assumes "i < 3"
      and "[dict_keys isotope, dict_keys mole_fraction, dict_keys databank] ! i = Some ks"
      and "established_molecules (molecule_list molecule)
             (take i [dict_keys isotope, dict_keys mole_fraction, dict_keys databank]) = Some r"
      and "set ks \<noteq> set r"
  shows "\<exists>msg. calc_spectrum en c molecule isotope mole_fraction databank overpopulation save_to
           = ([], Inl (ValueError msg))"
proof -
  from assms(1) consider "i = 0" | "i = 1" | "i = 2" by linarith
  then have "\<exists>msg. find_molecules molecule isotope mole_fraction databank = Inl (ValueError msg)"
  proof cases
    case 1
    with assms show ?thesis
      by (auto simp: find_molecules_def p_check_molecules_are_consistent_def dict_keys_def
               split: dict_or.splits option.splits)
  next
    case 2
    with assms show ?thesis
      by (auto simp: find_molecules_def p_check_molecules_are_consistent_def dict_keys_def
               split: dict_or.splits option.splits)
  next
    case 3
    with assms show ?thesis
      by (auto simp: find_molecules_def p_check_molecules_are_consistent_def dict_keys_def
               numeral_2_eq_2 split: dict_or.splits option.splits)
  qed
  then show ?thesis by (auto simp: calc_spectrum_def)
qed

theorem inconsistent_molecules_raise_witness:
  "\<exists>msg. calc_spectrum example_env example_call MolNone
            (Dict [(''CO2'', ''1,2''), (''CO'', ''1,2,3'')])
            (Dict [(''CO2'', 8 / 10)])
            (Value (DbName ''hitran'')) None []
          = ([], Inl (ValueError msg))"
proof -
  have a: "(1::nat) < 3" by simp
  have b: "[dict_keys (Dict [(''CO2'', ''1,2''), (''CO'', ''1,2,3'')]),
            dict_keys (Dict [(''CO2'', 8 / 10 :: real)]),
            dict_keys (Value (DbName ''hitran''))] ! 1 = Some [''CO2'']"
    by (simp add: dict_keys_def keys_def first_occurrences_def)
  have c: "established_molecules (molecule_list MolNone)
             (take 1 [dict_keys (Dict [(''CO2'', ''1,2''), (''CO'', ''1,2,3'')]),
                      dict_keys (Dict [(''CO2'', 8 / 10 :: real)]),
                      dict_keys (Value (DbName ''hitran''))]) = Some [''CO2'', ''CO'']"
    by (simp add: dict_keys_def keys_def first_occurrences_def)
  have d: "set [''CO2''] \<noteq> set [''CO2'', ''CO'']" by auto
  show ?thesis
    using inconsistent_molecules_raise [OF a b c d] by simp
qed

section \<open>Properties of the engine of the specification\<close>

subsection \<open>Range filter\<close>

lemma range_filter_kept:
  "range_filter wmin wmax bmw lines = Inr kept \<Longrightarrow>
     kept = filter (in_calculation_range wmin wmax bmw) lines"
  by (auto simp: range_filter_def Let_def split: if_splits)

text \<open>
  Claim C4. For every line table, every requested range \<open>[wavenum_min, wavenum_max]\<close>
  and every \<open>broadening_max_width \<ge> 0\<close>: a line whose center is exactly at
  \<open>wavenum_min - broadening_max_width / 2\<close> is kept for the synthesis, and a line whose
  center is strictly outside
  \<open>[wavenum_min - broadening_max_width / 2, wavenum_max + broadening_max_width / 2]\<close>
  is not among the lines kept. With \<open>wavenum_min = 2000\<close> and
  \<open>broadening_max_width = 10\<close> a line at 1994.9 is excluded, the lines at 1995 and at
  1995.1 are included.
\<close>

theorem range_filter_boundary:
  assumes "wmin \<le> wmax" and "0 \<le> bmw" and "l \<in> set lines"
  shows "(wav l = wmin - bmw / 2 \<longrightarrow>
            (\<exists>kept. range_filter wmin wmax bmw lines = Inr kept \<and> l \<in> set kept))
       \<and> (wav l < wmin - bmw / 2 \<or> wmax + bmw / 2 < wav l \<longrightarrow>
            (\<forall>kept. range_filter wmin wmax bmw lines = Inr kept \<longrightarrow> l \<notin> set kept))"
proof (intro conjI impI)
  assume w: "wav l = wmin - bmw / 2"
  with assms have "in_calculation_range wmin wmax bmw l"
    by (simp add: in_calculation_range_def)
  with assms(3) have m: "l \<in> set (filter (in_calculation_range wmin wmax bmw) lines)" by simp
  then have "filter (in_calculation_range wmin wmax bmw) lines \<noteq> []" by (auto simp: filter_empty_conv)
  with m show "\<exists>kept. range_filter wmin wmax bmw lines = Inr kept \<and> l \<in> set kept"
    by (simp add: range_filter_def Let_def)
next
  assume "wav l < wmin - bmw / 2 \<or> wmax + bmw / 2 < wav l"
  then have "\<not> in_calculation_range wmin wmax bmw l"
    by (auto simp: in_calculation_range_def)
  then show "\<forall>kept. range_filter wmin wmax bmw lines = Inr kept \<longrightarrow> l \<notin> set kept"
    by (auto dest: range_filter_kept)
qed

theorem range_filter_boundary_witness:
  "range_filter 2000 2300 10 example_lines = Inr [example_lines ! 1, example_lines ! 2]
   \<and> wav (example_lines ! 0) = 1994.9 \<and> example_lines ! 0 \<notin> set [example_lines ! 1, example_lines ! 2]
   \<and> wav (example_lines ! 1) = 2000 - 10 / 2
   \<and> wav (example_lines ! 2) = 1995.1"
proof -
  have r: "range_filter 2000 2300 10 example_lines = Inr [example_lines ! 1, example_lines ! 2]"
    by (simp add: range_filter_def in_calculation_range_def example_lines_def)
  have m0: "example_lines ! 0 \<in> set example_lines" and m1: "example_lines ! 1 \<in> set example_lines"
    by (simp_all add: example_lines_def)
  have w0: "wav (example_lines ! 0) = 1994.9" and w1: "wav (example_lines ! 1) = 2000 - 10 / 2"
    and w2: "wav (example_lines ! 2) = 1995.1"
    by (simp_all add: example_lines_def)
  have le: "(2000::real) \<le> 2300" "(0::real) \<le> 10" by simp_all
  from range_filter_boundary [OF le m0] w0 r
  have "example_lines ! 0 \<notin> set [example_lines ! 1, example_lines ! 2]" by simp
  moreover from range_filter_boundary [OF le m1] w1 r
  have "example_lines ! 1 \<in> set [example_lines ! 1, example_lines ! 2]" by simp
  ultimately show ?thesis using r w0 w1 w2 by simp
qed

subsection \<open>Doppler width\<close>

text \<open>
  Claim C5. For a fixed line and every temperature \<open>T > 0\<close>, the Gaussian width at
  \<open>2 * T\<close> is \<open>sqrt 2\<close> times the width at \<open>T\<close>, exactly; when the mass is not
  positive both computations fail in the same way.
\<close>

theorem doppler_width_doubling:
  assumes "0 < T"
  shows "gamma_gaussian k_B c wavenumber m (2 * T)
           = map_sum id (\<lambda>g. sqrt 2 * g) (gamma_gaussian k_B c wavenumber m T)
       \<and> (0 < m \<longrightarrow> (\<exists>g. gamma_gaussian k_B c wavenumber m T = Inr g))"
proof -
  have "sqrt (2 * ln 2 * k_B * (2 * T) / (m * c ^ 2))
          = sqrt 2 * sqrt (2 * ln 2 * k_B * T / (m * c ^ 2))"
  proof -
    have "2 * ln 2 * k_B * (2 * T) / (m * c ^ 2) = 2 * (2 * ln 2 * k_B * T / (m * c ^ 2))"
      by simp
    then show ?thesis by (simp only: real_sqrt_mult)
  qed
  with assms show ?thesis by (simp add: gamma_gaussian_def)
qed

theorem doppler_width_doubling_witness:
  "gamma_gaussian 1 1 2000 8 300 = Inr (2000 * sqrt (2 * ln 2 * 300 / 8))
   \<and> gamma_gaussian 1 1 2000 8 (2 * 300) = Inr (sqrt 2 * (2000 * sqrt (2 * ln 2 * 300 / 8)))"
proof -
  have a: "gamma_gaussian 1 1 2000 8 300 = Inr (2000 * sqrt (2 * ln 2 * 300 / 8))"
    by (simp add: gamma_gaussian_def)
  have p: "(0::real) < 300" by simp
  from doppler_width_doubling [OF p, of 1 1 2000 8] a show ?thesis by simp
qed

subsection \<open>Mass of the density arrays\<close>


lemma add_at_shape: "add_at D t b v = Inr D' \<Longrightarrow> map length D' = map length D"
  by (auto simp: add_at_def map_update list_update_same_conv split: if_splits)


lemma add_corners_shape:
  "add_corners D b s cs = Inr D' \<Longrightarrow> map length D' = map length D"
proof (induction cs arbitrary: D)
  case Nil
  then show ?case by simp
next
  case (Cons c cs)
  obtain t w where c: "c = (t, w)" by (cases c)
  from Cons.prems c obtain D1 where 1: "add_at D t b (s * w) = Inr D1"
    and 2: "add_corners D1 b s cs = Inr D'"
    by (auto split: sum.splits)
  from Cons.IH [OF 2] add_at_shape [OF 1] show ?case by simp
qed


lemma density_arrays_shape:
  "density_arrays weights tol D lines = Inr D' \<Longrightarrow> map length D' = map length D"
proof (induction lines arbitrary: D)
  case Nil
  then show ?case by simp
next
  case (Cons l ls)
  from Cons.prems obtain cs where w: "weights l = Inr cs" by (auto split: sum.splits)
  show ?case
  proof (cases "underflows tol (strength l) cs")
    case True
    with Cons w show ?thesis by simp
  next
    case False
    with Cons.prems w obtain D1 where 1: "add_corners D (center_bin l) (strength l) cs = Inr D1"
      and 2: "density_arrays weights tol D1 ls = Inr D'"
      by (auto split: sum.splits)
    from Cons.IH [OF 2] add_corners_shape [OF 1] show ?thesis by simp
  qed
qed


subsection \<open>The weights of a line add up to one\<close>






subsection \<open>Failures of the density arrays\<close>

text \<open>
  The scatter-add fails only on a bin outside the grid or on a failure of the weights,
  and succeeds when every bin and every template is inside the arrays.
\<close>

lemma add_at_error: "add_at D t b v = Inl e \<Longrightarrow> e = BinOutOfGrid"
  by (simp add: add_at_def split: if_splits)

lemma add_corners_error: "add_corners D b s cs = Inl e \<Longrightarrow> e = BinOutOfGrid"
proof (induction cs arbitrary: D)
  case Nil
  then show ?case by simp
next
  case (Cons c cs)
  obtain t w where c: "c = (t, w)" by (cases c)
  with Cons show ?case by (auto split: sum.splits dest: add_at_error)
qed

lemma density_arrays_error:
  "density_arrays weights tol D lines = Inl e \<Longrightarrow>
     e = BinOutOfGrid \<or> (\<exists>l \<in> set lines. weights l = Inl e)"
proof (induction lines arbitrary: D)
  case Nil
  then show ?case by simp
next
  case (Cons l ls)
  then show ?case by (auto split: sum.splits if_splits dest: add_corners_error)
qed

lemma add_corners_total:
  assumes "map length D = replicate m n" and "b < n" and "\<forall>c \<in> set cs. fst c < m"
  shows "\<exists>D'. add_corners D b s cs = Inr D'"
  using assms
proof (induction cs arbitrary: D)
  case Nil
  then show ?case by simp
next
  case (Cons c cs)
  obtain t w where c: "c = (t, w)" by (cases c)
  from Cons.prems c have t: "t < m" by simp
  from Cons.prems(1) have len: "length D = m" by (metis length_map length_replicate)
  from Cons.prems(1) t len have row: "length (D ! t) = n"
    by (metis nth_map nth_replicate)
  from t len row Cons.prems(2) obtain D1 where 1: "add_at D t b (s * w) = Inr D1"
    by (auto simp: add_at_def)
  from add_at_shape [OF 1] Cons.prems(1) have "map length D1 = replicate m n" by simp
  from Cons.IH [OF this Cons.prems(2)] Cons.prems(3) obtain D' where
    "add_corners D1 b s cs = Inr D'" by auto
  with 1 c show ?case by simp
qed

lemma density_arrays_total:
  assumes "map length D = replicate m n"
      and "\<forall>l \<in> set lines. center_bin l < n"
      and "\<forall>l \<in> set lines. \<exists>cs. weights l = Inr cs \<and> (\<forall>c \<in> set cs. fst c < m)"
  shows "\<exists>D'. density_arrays weights tol D lines = Inr D'"
  using assms
proof (induction lines arbitrary: D)
  case Nil
  then show ?case by simp
next
  case (Cons l ls)
  from Cons.prems(3) obtain cs where w: "weights l = Inr cs" and m: "\<forall>c \<in> set cs. fst c < m"
    by auto
  from Cons.prems(2) have b: "center_bin l < n" by simp
  have rest2: "\<forall>l \<in> set ls. center_bin l < n" using Cons.prems(2) by simp
  have rest3: "\<forall>l \<in> set ls. \<exists>cs. weights l = Inr cs \<and> (\<forall>c \<in> set cs. fst c < m)"
    using Cons.prems(3) by simp
  show ?case
  proof (cases "underflows tol (strength l) cs")
    case True
    with Cons.IH [OF Cons.prems(1) rest2 rest3] w show ?thesis by simp
  next
    case False
    from add_corners_total [OF Cons.prems(1) b m] obtain D1 where
      1: "add_corners D (center_bin l) (strength l) cs = Inr D1" by blast
    from add_corners_shape [OF 1] Cons.prems(1) have "map length D1 = replicate m n" by simp
    from Cons.IH [OF this rest2 rest3] 1 w False show ?thesis by simp
  qed
qed

subsection \<open>Degenerate template bank\<close>

lemma log_axis_degenerate:
  "ws \<noteq> [] \<Longrightarrow> card (set ws) < 2 \<Longrightarrow> log_axis ppd ws = Inr [hd ws]"
  by (simp add: log_axis_def length_remdups_card_conv)

lemma axis_weights_single: "axis_weights mr policy [a] w = Inr [(0, 1)]"
  by (simp add: axis_weights_def)

text \<open>
  Claim C7. For every non-empty input with fewer than two distinct Gaussian widths and
  fewer than two distinct Lorentzian widths, a single line in particular, the bank is
  built, it has exactly one template, and every line has the weight 1 on it, whatever
  the weighting policy. Building the density arrays never fails with a division by
  zero, and it succeeds, with one array, when the bins of the lines are in the grid.
\<close>

theorem degenerate_template_bank:
  assumes "lines \<noteq> []"
      and "card (set (map width_gaussian lines)) < 2"
      and "card (set (map width_lorentzian lines)) < 2"
  shows "(\<exists>ag al. build_templates (points_per_decade cfg) lines = Inr (ag, al)
            \<and> length ag * length al = 1
            \<and> (\<forall>l \<in> set lines. corner_weights (min_rms_weight cfg) policy ag al l = Inr [(0, 1)]))
       \<and> ldm_density cfg policy n lines \<noteq> Inl ZeroDivisionError
       \<and> ((\<forall>l \<in> set lines. center_bin l < n) \<longrightarrow>
            (\<exists>ag al D. ldm_density cfg policy n lines = Inr (ag, al, D) \<and> length D = 1))"
proof -
  let ?ag = "[hd (map width_gaussian lines)]" and ?al = "[hd (map width_lorentzian lines)]"
  let ?w = "corner_weights (min_rms_weight cfg) policy ?ag ?al"
  from assms have g: "log_axis (points_per_decade cfg) (map width_gaussian lines) = Inr ?ag"
    by (intro log_axis_degenerate) simp_all
  from assms have l: "log_axis (points_per_decade cfg) (map width_lorentzian lines) = Inr ?al"
    by (intro log_axis_degenerate) simp_all
  from g l have b: "build_templates (points_per_decade cfg) lines = Inr (?ag, ?al)"
    by (simp add: build_templates_def)
  have w: "?w x = Inr [(0, 1)]" for x
    by (simp add: corner_weights_def axis_weights_single)
  have first: "\<exists>ag al. build_templates (points_per_decade cfg) lines = Inr (ag, al)
            \<and> length ag * length al = 1
            \<and> (\<forall>l \<in> set lines. corner_weights (min_rms_weight cfg) policy ag al l = Inr [(0, 1)])"
    using b w by simp
  have second: "ldm_density cfg policy n lines \<noteq> Inl ZeroDivisionError"
  proof
    assume "ldm_density cfg policy n lines = Inl ZeroDivisionError"
    with b have "density_arrays ?w (tolerance cfg) (replicate 1 (replicate n 0)) lines
                   = Inl ZeroDivisionError"
      by (simp add: ldm_density_def split: sum.splits)
    from density_arrays_error [OF this] w show False by simp
  qed
  have third: "\<exists>ag al D. ldm_density cfg policy n lines = Inr (ag, al, D) \<and> length D = 1"
    if bins: "\<forall>l \<in> set lines. center_bin l < n"
  proof -
    have shape: "map length (replicate 1 (replicate n (0::real))) = replicate 1 n" by simp
    have ws: "\<forall>l \<in> set lines. \<exists>cs. ?w l = Inr cs \<and> (\<forall>c \<in> set cs. fst c < 1)"
      using w by simp
    from density_arrays_total [OF shape bins ws, of "tolerance cfg"] obtain D where
      d: "density_arrays ?w (tolerance cfg) (replicate 1 (replicate n 0)) lines = Inr D"
      by blast
    from density_arrays_shape [OF d] have "length D = 1"
      by (metis length_map length_replicate)
    with b d show ?thesis by (simp add: ldm_density_def)
  qed
  from first second third show ?thesis by blast
qed

theorem degenerate_template_bank_witness:
  "build_templates 4 single_line = Inr ([1 / 10], [0])
   \<and> corner_weights (\<lambda>t d. t) MinRMS [1 / 10] [0] (hd single_line) = Inr [(0, 1)]
   \<and> ldm_density example_config MinRMS 3 single_line = Inr ([1 / 10], [0], [[0, 3, 0]])"
proof -
  have a: "single_line \<noteq> []" "card (set (map width_gaussian single_line)) < 2"
    "card (set (map width_lorentzian single_line)) < 2"
    by (simp_all add: single_line_def)
  have bt: "build_templates 4 single_line = Inr ([1 / 10], [0])"
    by (simp add: build_templates_def log_axis_def single_line_def)
  have ppd: "points_per_decade example_config = 4" and mr: "min_rms_weight example_config = (\<lambda>t d. t)"
    by (simp_all add: example_config_def)
  have bins: "\<forall>l \<in> set single_line. center_bin l < 3" by (simp add: single_line_def)
  have hdm: "hd single_line \<in> set single_line" by (simp add: single_line_def)
  note t = degenerate_template_bank [OF a, of example_config MinRMS 3]
  from t bt ppd mr hdm
  have cw: "corner_weights (\<lambda>t d. t) MinRMS [1 / 10] [0] (hd single_line) = Inr [(0, 1)]"
    by auto
  have ld: "ldm_density example_config MinRMS 3 single_line = Inr ([1 / 10], [0], [[0, 3, 0]])"
    using bt cw
    by (simp add: ldm_density_def ppd mr example_config_def single_line_def underflows_def
          add_at_def numeral_3_eq_3)
  from bt cw ld show ?thesis by simp
qed

subsection \<open>A profile inside the grid\<close>



subsection \<open>Convolution of the density arrays\<close>







subsection \<open>Bins of the lines that are not dropped\<close>



subsection \<open>Integral of the synthesized coefficient\<close>





subsection \<open>The examples of the engine\<close>










subsection \<open>Conservation of the linestrength\<close>




end
